theory Spec2Isabelle
  imports Complex_Main
begin

text \<open>
  The normalization layer of the initiative status dashboard (\<open>src/lib/linear.ts\<close>):
  the metadata parser, the state mapper, the assembly of an initiative from a project
  node and its issues, and the accessors over the fetched list. The definitions follow
  the source function by function; the theorems after them settle the properties
  stated of it.
\<close>

section \<open>Strings and character classes\<close>

text \<open>
  A string of the program is a sequence of UTF-16 code units. The model uses
  \<open>string\<close>, whose characters are the code units below 256 (Latin-1); on these
  the classes below are the ones ECMAScript gives to \<open>\s\<close>, \<open>\w\<close>, \<open>.\<close>,
  \<open>trim\<close> and \<open>toLowerCase\<close>.
\<close>

definition LF :: char where
  "LF = CHR 0x0A"

definition isSpace :: "char \<Rightarrow> bool" where
  \<comment> \<open>\<open>\s\<close>, and what \<open>trim\<close> removes: TAB, LF, VT, FF, CR, SP, NBSP.\<close>
  "isSpace c = ((of_char c :: nat) \<in> {9, 10, 11, 12, 13, 32, 160})"

definition isLineTerminator :: "char \<Rightarrow> bool" where
  "isLineTerminator c = ((of_char c :: nat) \<in> {10, 13})"

definition isDot :: "char \<Rightarrow> bool" where
  \<comment> \<open>\<open>.\<close> without the \<open>s\<close> flag.\<close>
  "isDot c = (\<not> isLineTerminator c)"

definition isDigit :: "char \<Rightarrow> bool" where
  "isDigit c = (48 \<le> (of_char c :: nat) \<and> (of_char c :: nat) \<le> 57)"

definition isLowerAZ :: "char \<Rightarrow> bool" where
  "isLowerAZ c = (97 \<le> (of_char c :: nat) \<and> (of_char c :: nat) \<le> 122)"

definition isUpperAZ :: "char \<Rightarrow> bool" where
  "isUpperAZ c = (65 \<le> (of_char c :: nat) \<and> (of_char c :: nat) \<le> 90)"

definition isWordChar :: "char \<Rightarrow> bool" where
  \<comment> \<open>\<open>\w\<close> is \<open>[A-Za-z0-9_]\<close>.\<close>
  "isWordChar c = (isLowerAZ c \<or> isUpperAZ c \<or> isDigit c \<or> c = CHR ''_'')"

definition isSlugChar :: "char \<Rightarrow> bool" where
  \<comment> \<open>\<open>[a-z0-9]\<close>.\<close>
  "isSlugChar c = (isLowerAZ c \<or> isDigit c)"

definition toLowerChar :: "char \<Rightarrow> char" where
  \<comment> \<open>A-Z, and the Latin-1 capitals U+00C0..U+00DE without the multiplication sign.\<close>
  "toLowerChar c =
     (let n = (of_char c :: nat)
      in if (65 \<le> n \<and> n \<le> 90) \<or> (192 \<le> n \<and> n \<le> 222 \<and> n \<noteq> 215)
         then char_of (n + 32) else c)"

definition toLowerCase :: "string \<Rightarrow> string" where
  "toLowerCase s = map toLowerChar s"

definition trim :: "string \<Rightarrow> string" where
  "trim s = rev (dropWhile isSpace (rev (dropWhile isSpace s)))"

definition startsWith :: "string \<Rightarrow> string \<Rightarrow> bool" where
  \<comment> \<open>\<open>startsWith s p\<close> is \<open>s.startsWith(p)\<close>.\<close>
  "startsWith s p = (take (length p) s = p)"

fun replaceFirst :: "string \<Rightarrow> string \<Rightarrow> string \<Rightarrow> string" where
  \<comment> \<open>\<open>replaceFirst pat rep s\<close> is \<open>s.replace(pat, rep)\<close> for a string pattern and a
      replacement without \<open>$\<close>: the first occurrence only.\<close>
  "replaceFirst pat rep [] = (if pat = [] then rep else [])"
| "replaceFirst pat rep (c # cs) =
     (if startsWith (c # cs) pat then rep @ drop (length pat) (c # cs)
      else c # replaceFirst pat rep cs)"

fun splitLF :: "string \<Rightarrow> string list" where
  \<comment> \<open>\<open>s.split('\n')\<close>: the pieces between the line feeds, one at least.\<close>
  "splitLF [] = [[]]"
| "splitLF (c # cs) =
     (if c = LF then [] # splitLF cs
      else (case splitLF cs of [] \<Rightarrow> [[c]] | l # ls \<Rightarrow> (c # l) # ls))"

section \<open>Regular expressions as backtracking matchers\<close>

text \<open>
  Each regular expression of the source is transcribed piece by piece into a matcher in
  continuation-passing style: a matcher takes the continuation for the rest of the
  pattern and the remaining input, and returns the first success in the order in which
  a backtracking engine tries the alternatives (a greedy quantifier the longest
  repetition first, a lazy one the shortest).
\<close>

fun lit :: "string \<Rightarrow> (string \<Rightarrow> 'a option) \<Rightarrow> string \<Rightarrow> 'a option" where
  "lit [] k s = k s"
| "lit (p # ps) k [] = None"
| "lit (p # ps) k (c # cs) = (if p = c then lit ps k cs else None)"

fun greedyStar ::
  "(char \<Rightarrow> bool) \<Rightarrow> (string \<Rightarrow> string \<Rightarrow> 'a option) \<Rightarrow> string \<Rightarrow> string \<Rightarrow> 'a option" where
  \<comment> \<open>\<open>[P]*\<close>; the continuation receives the text matched (after \<open>acc\<close>) and the rest.\<close>
  "greedyStar P k acc [] = k acc []"
| "greedyStar P k acc (c # cs) =
     (if P c
      then (case greedyStar P k (acc @ [c]) cs of
              Some r \<Rightarrow> Some r
            | None \<Rightarrow> k acc (c # cs))
      else k acc (c # cs))"

definition greedyPlus ::
  "(char \<Rightarrow> bool) \<Rightarrow> (string \<Rightarrow> string \<Rightarrow> 'a option) \<Rightarrow> string \<Rightarrow> 'a option" where
  "greedyPlus P k s =
     (case s of [] \<Rightarrow> None | c # cs \<Rightarrow> if P c then greedyStar P k [c] cs else None)"

fun lazyStar ::
  "(char \<Rightarrow> bool) \<Rightarrow> (string \<Rightarrow> string \<Rightarrow> 'a option) \<Rightarrow> string \<Rightarrow> string \<Rightarrow> 'a option" where
  \<comment> \<open>\<open>[P]*?\<close>\<close>
  "lazyStar P k acc [] = k acc []"
| "lazyStar P k acc (c # cs) =
     (case k acc (c # cs) of
        Some r \<Rightarrow> Some r
      | None \<Rightarrow> if P c then lazyStar P k (acc @ [c]) cs else None)"

definition lazyPlus ::
  "(char \<Rightarrow> bool) \<Rightarrow> (string \<Rightarrow> string \<Rightarrow> 'a option) \<Rightarrow> string \<Rightarrow> 'a option" where
  "lazyPlus P k s =
     (case s of [] \<Rightarrow> None | c # cs \<Rightarrow> if P c then lazyStar P k [c] cs else None)"

definition atEnd :: "'a \<Rightarrow> string \<Rightarrow> 'a option" where
  \<comment> \<open>\<open>$\<close> without the \<open>m\<close> flag, returning the captures.\<close>
  "atEnd r s = (if s = [] then Some r else None)"

fun search :: "(string \<Rightarrow> 'a option) \<Rightarrow> string \<Rightarrow> string \<Rightarrow> (string \<times> 'a) option" where
  \<comment> \<open>An unanchored match: the leftmost position at which the matcher succeeds, with
      the text before it.\<close>
  "search m pre [] = map_option (Pair pre) (m [])"
| "search m pre (c # cs) =
     (case m (c # cs) of
        Some r \<Rightarrow> Some (pre, r)
      | None \<Rightarrow> search m (pre @ [c]) cs)"

section \<open>Numbers\<close>

text \<open>
  A number of the program is an IEEE double. The model keeps \<open>NaN\<close> and the two
  infinities apart and holds every other number by its exact value, without the
  rounding to 53 bits: the two agree wherever the value is representable. The progress
  of a project comes out of JSON and is finite, so it is a rational and the completeness
  an integer.
\<close>

datatype jsnum = NaN | PosInfinity | NegInfinity | Fin rat

definition truthy :: "jsnum \<Rightarrow> bool" where
  \<comment> \<open>What \<open>||\<close> and \<open>if\<close> test on a number: neither \<open>NaN\<close> nor zero.\<close>
  "truthy n = (n \<noteq> NaN \<and> n \<noteq> Fin 0)"

definition negate :: "jsnum \<Rightarrow> jsnum" where
  "negate n =
     (case n of NaN \<Rightarrow> NaN | PosInfinity \<Rightarrow> NegInfinity | NegInfinity \<Rightarrow> PosInfinity
      | Fin q \<Rightarrow> Fin (- q))"

definition radixDigit :: "nat \<Rightarrow> char \<Rightarrow> nat option" where
  "radixDigit radix c =
     (let n = (of_char c :: nat);
          d = (if 48 \<le> n \<and> n \<le> 57 then Some (n - 48)
               else if 97 \<le> n \<and> n \<le> 102 then Some (n - 87)
               else if 65 \<le> n \<and> n \<le> 70 then Some (n - 55)
               else None)
      in case d of None \<Rightarrow> None | Some v \<Rightarrow> if v < radix then Some v else None)"

fun radixDigits :: "nat \<Rightarrow> nat \<Rightarrow> string \<Rightarrow> nat option" where
  "radixDigits radix acc [] = Some acc"
| "radixDigits radix acc (c # cs) =
     (case radixDigit radix c of
        None \<Rightarrow> None
      | Some v \<Rightarrow> radixDigits radix (radix * acc + v) cs)"

definition digits :: "nat \<Rightarrow> string \<Rightarrow> nat option" where
  \<comment> \<open>One digit or more in the radix, and nothing else.\<close>
  "digits radix s = (if s = [] then None else radixDigits radix 0 s)"

definition decimalValue :: "string \<Rightarrow> nat" where
  \<comment> \<open>The value of a run of decimal digits; 0 for the empty run.\<close>
  "decimalValue ds = foldl (\<lambda>a c. 10 * a + (of_char c - 48)) 0 ds"

definition pow10 :: "int \<Rightarrow> rat" where
  "pow10 e = (if 0 \<le> e then 10 ^ nat e else 1 / 10 ^ nat (- e))"

definition exponentPart :: "string \<Rightarrow> int option" where
  \<comment> \<open>An optional \<open>ExponentPart\<close>, up to the end of the literal.\<close>
  "exponentPart s =
     (case s of
        [] \<Rightarrow> Some 0
      | c # cs \<Rightarrow>
          if c = CHR ''e'' \<or> c = CHR ''E''
          then (case cs of
                  [] \<Rightarrow> None
                | d # ds \<Rightarrow>
                    if d = CHR ''+'' then map_option int (digits 10 ds)
                    else if d = CHR ''-'' then map_option (\<lambda>n. - int n) (digits 10 ds)
                    else map_option int (digits 10 cs))
          else None)"

definition unsignedDecimal :: "string \<Rightarrow> jsnum" where
  \<comment> \<open>\<open>StrUnsignedDecimalLiteral\<close>: \<open>Infinity\<close>, \<open>1\<close>, \<open>1.\<close>, \<open>1.5\<close>, \<open>.5\<close>, each
      with an optional exponent.\<close>
  "unsignedDecimal s =
     (if s = ''Infinity'' then PosInfinity
      else
        let ip = takeWhile isDigit s;
            r1 = dropWhile isDigit s;
            hasDot = (r1 \<noteq> [] \<and> hd r1 = CHR ''.'');
            fp = (if hasDot then takeWhile isDigit (tl r1) else []);
            r2 = (if hasDot then dropWhile isDigit (tl r1) else r1)
        in if ip = [] \<and> fp = [] then NaN
           else (case exponentPart r2 of
                   None \<Rightarrow> NaN
                 | Some e \<Rightarrow>
                     Fin ((of_nat (decimalValue ip)
                           + of_nat (decimalValue fp) / 10 ^ length fp)
                          * pow10 e)))"

definition nonDecimal :: "nat \<Rightarrow> string \<Rightarrow> jsnum" where
  "nonDecimal radix s = (case digits radix s of None \<Rightarrow> NaN | Some n \<Rightarrow> Fin (of_nat n))"

definition strNumericLiteral :: "string \<Rightarrow> jsnum" where
  \<comment> \<open>\<open>StrNumericLiteral\<close>: a signed decimal literal, or an unsigned binary, octal or
      hexadecimal integer.\<close>
  "strNumericLiteral s =
     (case s of
        [] \<Rightarrow> NaN
      | c # cs \<Rightarrow>
          if c = CHR ''+'' then unsignedDecimal cs
          else if c = CHR ''-'' then negate (unsignedDecimal cs)
          else if c = CHR ''0'' \<and> cs \<noteq> [] \<and> hd cs \<in> {CHR ''x'', CHR ''X''}
            then nonDecimal 16 (tl cs)
          else if c = CHR ''0'' \<and> cs \<noteq> [] \<and> hd cs \<in> {CHR ''o'', CHR ''O''}
            then nonDecimal 8 (tl cs)
          else if c = CHR ''0'' \<and> cs \<noteq> [] \<and> hd cs \<in> {CHR ''b'', CHR ''B''}
            then nonDecimal 2 (tl cs)
          else unsignedDecimal s)"

definition Number :: "string \<Rightarrow> jsnum" where
  \<comment> \<open>\<open>Number(s)\<close> on a string: white space around the literal is skipped, the empty
      string is 0, and anything that is not a numeric literal is \<open>NaN\<close>.\<close>
  "Number s = (let t = trim s in if t = [] then Fin 0 else strNumericLiteral t)"

definition mathRound :: "rat \<Rightarrow> int" where
  \<comment> \<open>\<open>Math.round\<close> on a finite number: to the nearest integer, a half upwards.\<close>
  "mathRound q = \<lfloor>q + 1 / 2\<rfloor>"

definition divide :: "rat \<Rightarrow> rat \<Rightarrow> jsnum" where
  \<comment> \<open>\<open>x / y\<close> on two finite numbers, a zero divisor being \<open>+0\<close> (a length): \<open>0 / 0\<close>
      is \<open>NaN\<close>, and any other \<open>x / 0\<close> the infinity of the sign of \<open>x\<close>.\<close>
  "divide x y =
     (if y = 0 then (if x = 0 then NaN else if 0 < x then PosInfinity else NegInfinity)
      else Fin (x / y))"

definition mathRoundNumber :: "jsnum \<Rightarrow> jsnum" where
  \<comment> \<open>\<open>Math.round\<close> on any number: \<open>NaN\<close> and the infinities are returned as they are.\<close>
  "mathRoundNumber n = (case n of Fin q \<Rightarrow> Fin (of_int (mathRound q)) | _ \<Rightarrow> n)"

section \<open>Metadata parsing\<close>

record ProjectMeta =
  meta_url :: "string option"
  meta_cost_estimate :: "jsnum option"
  meta_opencollective_slug :: "string option"
  meta_opencollective_type :: "string option"
  meta_subdomain :: "string option"
  meta_page_path :: "string option"

definition emptyMeta :: ProjectMeta where
  "emptyMeta =
     \<lparr>meta_url = None, meta_cost_estimate = None, meta_opencollective_slug = None,
      meta_opencollective_type = None, meta_subdomain = None, meta_page_path = None\<rparr>"

definition linkMatch :: "string \<Rightarrow> string option" where
  \<comment> \<open>\<open>/^\[([^\]]+)\]\([^)]+\)$/\<close>, the first group.\<close>
  "linkMatch value =
     lit ''['' (greedyPlus (\<lambda>c. c \<noteq> CHR '']'') (\<lambda>g.
       lit '']('' (greedyPlus (\<lambda>c. c \<noteq> CHR '')'') (\<lambda>_.
         lit '')'' (atEnd g))))) value"

definition simpleLinkMatch :: "string \<Rightarrow> string option" where
  \<comment> \<open>\<open>/^\[([^\]]+)\]\(.+\)$/\<close>, the first group.\<close>
  "simpleLinkMatch value =
     lit ''['' (greedyPlus (\<lambda>c. c \<noteq> CHR '']'') (\<lambda>g.
       lit '']('' (greedyPlus isDot (\<lambda>_.
         lit '')'' (atEnd g))))) value"

definition stripMarkdownLinks :: "string \<Rightarrow> string" where
  "stripMarkdownLinks value =
     (case linkMatch value of
        Some inner \<Rightarrow> inner
      | None \<Rightarrow> (case simpleLinkMatch value of Some inner \<Rightarrow> inner | None \<Rightarrow> value))"

definition metaRegex :: "string \<Rightarrow> (string \<times> string) option" where
  \<comment> \<open>\<open>/<!--\s*meta\s*\n([\s\S]*?)-->/\<close> tried at the start of the input: the first
      group and the input left after the match.\<close>
  "metaRegex s =
     lit ''<!--'' (greedyStar isSpace (\<lambda>_.
       lit ''meta'' (greedyStar isSpace (\<lambda>_.
         lit [LF] (lazyStar (\<lambda>_. True) (\<lambda>g.
           lit ''-->'' (\<lambda>rest. Some (g, rest))) [])) [])) []) s"

definition metaMatch :: "string \<Rightarrow> (string \<times> string) option" where
  \<comment> \<open>\<open>content.match(...)\<close>: the whole match \<open>metaMatch[0]\<close> and the group
      \<open>metaMatch[1]\<close>, at the leftmost position where the expression matches.\<close>
  "metaMatch content =
     (case search metaRegex [] content of
        None \<Rightarrow> None
      | Some (pre, g, rest) \<Rightarrow>
          Some (take (length content - length pre - length rest) (drop (length pre) content), g))"

definition lineRegex :: "string \<Rightarrow> (string \<times> string) option" where
  \<comment> \<open>\<open>/^\s*(\w+)\s*:\s*(.+?)\s*$/\<close>: the key and the raw value.\<close>
  "lineRegex line =
     greedyStar isSpace (\<lambda>_.
       greedyPlus isWordChar (\<lambda>key.
         greedyStar isSpace (\<lambda>_.
           lit '':'' (greedyStar isSpace (\<lambda>_.
             lazyPlus isDot (\<lambda>rawValue.
               greedyStar isSpace (\<lambda>_. atEnd (key, rawValue)) [])) [])) [])) [] line"

definition parseLine :: "ProjectMeta \<Rightarrow> string \<Rightarrow> ProjectMeta" where
  \<comment> \<open>One turn of the loop over the lines of the block.\<close>
  "parseLine meta line =
     (case lineRegex line of
        None \<Rightarrow> meta
      | Some (key, rawValue) \<Rightarrow>
          let value = stripMarkdownLinks (trim rawValue)
          in if key = ''url'' then meta\<lparr>meta_url := Some value\<rparr>
             else if key = ''cost_estimate''
               then meta\<lparr>meta_cost_estimate :=
                      Some (if truthy (Number value) then Number value else Fin 0)\<rparr>
             else if key = ''opencollective_slug''
               then meta\<lparr>meta_opencollective_slug := Some value\<rparr>
             else if key = ''opencollective_type''
               then meta\<lparr>meta_opencollective_type := Some value\<rparr>
             else if key = ''subdomain'' then meta\<lparr>meta_subdomain := Some value\<rparr>
             else if key = ''page_path'' then meta\<lparr>meta_page_path := Some value\<rparr>
             else meta)"

definition parseMeta :: "string option \<Rightarrow> ProjectMeta \<times> string" where
  \<comment> \<open>The meta and the body. \<open>!content\<close> holds of \<open>null\<close> and of the empty string.\<close>
  "parseMeta content =
     (case content of
        None \<Rightarrow> (emptyMeta, [])
      | Some c \<Rightarrow>
          if c = [] then (emptyMeta, [])
          else (case metaMatch c of
                  None \<Rightarrow> (emptyMeta, trim c)
                | Some (whole, metaBlock) \<Rightarrow>
                    (foldl parseLine emptyMeta (splitLF metaBlock),
                     trim (replaceFirst whole [] c))))"

section \<open>State mapping\<close>

datatype InitiativeStatus = Active | InDevelopment | Planned | Beta

definition mapProjectState :: "string \<Rightarrow> InitiativeStatus" where
  \<comment> \<open>The \<open>switch\<close> on the state, the \<open>default\<close> branch last. The statuses stand for
      \<open>'active'\<close>, \<open>'in-development'\<close>, \<open>'planned'\<close> and \<open>'beta'\<close>.\<close>
  "mapProjectState state =
     (if state = ''started'' then Active
      else if state = ''backlog'' \<or> state = ''planned'' then Planned
      else if state = ''paused'' then Beta
      else if state = ''completed'' then Active
      else if state = ''canceled'' then Planned
      else Planned)"

section \<open>Projects and initiatives\<close>

record Issue =
  issue_id :: string
  issue_title :: string
  issue_state_type :: string
  issue_state_name :: string
  issue_completedAt :: "string option"

record LinearProjectNode =
  project_id :: string
  project_name :: string
  project_description :: "string option"
  project_content :: "string option"
  project_state :: string
  project_progress :: rat
  project_startDate :: "string option"
  project_targetDate :: "string option"
  project_url :: string
  project_createdAt :: string
  project_updatedAt :: string
  project_issues :: "Issue list"

record Initiative =
  initiative_id :: string
  slug :: string
  name :: string
  description :: string
  url :: string
  page_path :: "string option"
  subdomain :: "string option"
  completeness :: int
  cost_estimate :: jsnum
  opencollective_slug :: "string option"
  opencollective_type :: "string option"
  status :: InitiativeStatus
  features :: "string list"
  next_milestones :: "string list"
  start_date :: "string option"
  target_date :: "string option"
  issue_count :: nat
  completed_issue_count :: nat
  created_at :: string
  updated_at :: string

definition orElse :: "string option \<Rightarrow> string \<Rightarrow> string" where
  \<comment> \<open>\<open>a || b\<close> on strings: \<open>null\<close>, \<open>undefined\<close> and the empty string give way.\<close>
  "orElse a b = (case a of None \<Rightarrow> b | Some v \<Rightarrow> if v = [] then b else v)"

definition orNull :: "string option \<Rightarrow> string option" where
  \<comment> \<open>\<open>a || null\<close>\<close>
  "orNull a = (case a of None \<Rightarrow> None | Some v \<Rightarrow> if v = [] then None else Some v)"

function replaceNonSlugRuns :: "string \<Rightarrow> string" where
  \<comment> \<open>\<open>.replace(/[^a-z0-9]+/g, '-')\<close>: every maximal run becomes one hyphen.\<close>
  "replaceNonSlugRuns [] = []"
| "replaceNonSlugRuns (c # cs) =
     (if isSlugChar c then c # replaceNonSlugRuns cs
      else CHR ''-'' # replaceNonSlugRuns (dropWhile (\<lambda>x. \<not> isSlugChar x) cs))"
  by pat_completeness auto
termination
  by (relation "measure length") (auto simp: less_Suc_eq_le length_dropWhile_le)

definition stripEdgeHyphens :: "string \<Rightarrow> string" where
  \<comment> \<open>\<open>.replace(/^-|-$/g, '')\<close>: a hyphen at the start goes, then one at the end.\<close>
  "stripEdgeHyphens s =
     (let s1 = (case s of [] \<Rightarrow> [] | c # cs \<Rightarrow> if c = CHR ''-'' then cs else s)
      in if s1 \<noteq> [] \<and> last s1 = CHR ''-'' then butlast s1 else s1)"

definition projectToInitiative :: "LinearProjectNode \<Rightarrow> Initiative" where
  "projectToInitiative project =
     (let (meta, contentBody) = parseMeta (project_content project);
          displayDescription =
            orElse (project_description project)
              (orElse (Some contentBody) (project_name project));
          completedIssues =
            filter (\<lambda>i. issue_state_type i = ''completed'') (project_issues project);
          openIssues =
            filter (\<lambda>i. issue_state_type i = ''started'' \<or> issue_state_type i = ''unstarted'')
              (project_issues project);
          slug' = stripEdgeHyphens (replaceNonSlugRuns (toLowerCase (project_name project)));
          url' = orElse (meta_url meta) (project_url project)
      in \<lparr>initiative_id = project_id project,
          slug = slug',
          name = project_name project,
          description = displayDescription,
          url = url',
          page_path = orNull (meta_page_path meta),
          subdomain = orNull (meta_subdomain meta),
          completeness = mathRound (project_progress project * 100),
          cost_estimate =
            (case meta_cost_estimate meta of
               None \<Rightarrow> Fin 0
             | Some n \<Rightarrow> if truthy n then n else Fin 0),
          opencollective_slug = orNull (meta_opencollective_slug meta),
          opencollective_type = orNull (meta_opencollective_type meta),
          status = mapProjectState (project_state project),
          features = map issue_title (take 10 completedIssues),
          next_milestones = map issue_title (take 5 openIssues),
          start_date = project_startDate project,
          target_date = project_targetDate project,
          issue_count = length (project_issues project),
          completed_issue_count = length completedIssues,
          created_at = project_createdAt project,
          updated_at = project_updatedAt project\<rparr>)"

section \<open>Fetching\<close>

text \<open>
  The request is the one effect of the program. What it meets is a record: the
  configured key, and the response with its status, the \<open>errors\<close> of the payload (absent,
  or the messages) and the project nodes of its \<open>data\<close>. Every \<open>throw\<close> of \<open>gql\<close> is an
  error value.
\<close>

datatype FetchError =
    MissingApiKey
  | LinearApiError nat string
  | LinearGraphQLError "string option"

record World =
  env_LINEAR_API_KEY :: "string option"
  res_ok :: bool
  res_status :: nat
  res_statusText :: string
  json_errors :: "string list option"
  json_projects :: "LinearProjectNode list"

definition gql :: "World \<Rightarrow> FetchError + LinearProjectNode list" where
  "gql w =
     (if orNull (env_LINEAR_API_KEY w) = None then Inl MissingApiKey
      else if \<not> res_ok w then Inl (LinearApiError (res_status w) (res_statusText w))
      else (case json_errors w of
              Some errs \<Rightarrow> Inl (LinearGraphQLError (case errs of [] \<Rightarrow> None | m # _ \<Rightarrow> Some m))
            | None \<Rightarrow> Inr (json_projects w)))"

fun insertBy :: "('a \<Rightarrow> 'a \<Rightarrow> int) \<Rightarrow> 'a \<Rightarrow> 'a list \<Rightarrow> 'a list" where
  "insertBy cmp x [] = [x]"
| "insertBy cmp x (y # ys) = (if cmp x y \<le> 0 then x # y # ys else y # insertBy cmp x ys)"

definition arraySort :: "('a \<Rightarrow> 'a \<Rightarrow> int) \<Rightarrow> 'a list \<Rightarrow> 'a list" where
  \<comment> \<open>\<open>Array.prototype.sort\<close> with a comparator. The sort is stable, so for a consistent
      comparator its result is the one computed here by insertion from the right.\<close>
  "arraySort cmp xs = foldr (insertBy cmp) xs []"

text \<open>
  \<open>String.prototype.localeCompare\<close> is the collation of the platform, not code of the
  repository: the functions take it as the parameter \<open>localeCompare\<close>, a comparator
  returning a negative number, zero or a positive number.
\<close>

definition getAllInitiatives ::
  "(string \<Rightarrow> string \<Rightarrow> int) \<Rightarrow> World \<Rightarrow> FetchError + Initiative list" where
  "getAllInitiatives localeCompare w =
     (case gql w of
        Inl e \<Rightarrow> Inl e
      | Inr nodes \<Rightarrow>
          Inr (arraySort (\<lambda>a b. localeCompare (name a) (name b))
                 (map projectToInitiative
                    (filter (\<lambda>p. project_state p \<noteq> ''canceled'') nodes))))"

definition getInitiativeBySlug ::
  "(string \<Rightarrow> string \<Rightarrow> int) \<Rightarrow> World \<Rightarrow> string \<Rightarrow> FetchError + Initiative option" where
  "getInitiativeBySlug localeCompare w slug' =
     (case getAllInitiatives localeCompare w of
        Inl e \<Rightarrow> Inl e
      | Inr initiatives \<Rightarrow> Inr (find (\<lambda>i. slug i = slug') initiatives))"

definition getInitiativeByPagePath ::
  "(string \<Rightarrow> string \<Rightarrow> int) \<Rightarrow> World \<Rightarrow> string \<Rightarrow> FetchError + Initiative option" where
  "getInitiativeByPagePath localeCompare w pagePath =
     (let normalizedPath = (if startsWith pagePath ''/'' then pagePath else ''/'' @ pagePath)
      in case getAllInitiatives localeCompare w of
           Inl e \<Rightarrow> Inl e
         | Inr initiatives \<Rightarrow> Inr (find (\<lambda>i. page_path i = Some normalizedPath) initiatives))"

definition getAverageCompleteness ::
  "(string \<Rightarrow> string \<Rightarrow> int) \<Rightarrow> World \<Rightarrow> FetchError + jsnum" where
  "getAverageCompleteness localeCompare w =
     (case getAllInitiatives localeCompare w of
        Inl e \<Rightarrow> Inl e
      | Inr initiatives \<Rightarrow>
          Inr (if length initiatives = 0 then Fin 0
               else
                 let total = foldl (\<lambda>sum i. sum + completeness i) 0 initiatives
                 in mathRoundNumber (divide (of_int total) (of_nat (length initiatives)))))"

text \<open>
  Modelled from the spec: the collation \<open>localeCompare\<close> is not in the repository; the
  spec gives the order of the list as ascending by name, case-insensitive
  lexicographic. \<open>caseInsensitiveCompare\<close> compares the lowercased names code unit by
  code unit. It is the order of which the claim on sorting speaks, and it stands for the
  parameter in concrete runs on names that the platform's collation orders the same way.
\<close>

fun compareCodeUnits :: "string \<Rightarrow> string \<Rightarrow> int" where
  \<comment> \<open>Modelled from the spec: the lexicographic comparison of two strings, code unit by
      code unit, a proper prefix first.\<close>
  "compareCodeUnits [] [] = 0"
| "compareCodeUnits [] (y # ys) = - 1"
| "compareCodeUnits (x # xs) [] = 1"
| "compareCodeUnits (x # xs) (y # ys) =
     (if (of_char x :: nat) < of_char y then - 1
      else if (of_char y :: nat) < of_char x then 1
      else compareCodeUnits xs ys)"

definition caseInsensitiveCompare :: "string \<Rightarrow> string \<Rightarrow> int" where
  \<comment> \<open>Modelled from the spec: the case-insensitive lexicographic comparison, in place of
      the platform's \<open>localeCompare\<close>, which the repository does not hold.\<close>
  "caseInsensitiveCompare a b = compareCodeUnits (toLowerCase a) (toLowerCase b)"

section \<open>Predicates of the claims\<close>

definition containsMetaBlock :: "string \<Rightarrow> bool" where
  \<comment> \<open>The content holds a delimited block: the opening \<open><!--\<close>, white space, the word
      \<open>meta\<close>, white space ending in a line feed, any text, and the closing \<open>-->\<close>.\<close>
  "containsMetaBlock c =
     (\<exists>pre ws1 ws2 blk post.
        c = pre @ ''<!--'' @ ws1 @ ''meta'' @ ws2 @ [LF] @ blk @ ''-->'' @ post
        \<and> list_all isSpace ws1 \<and> list_all isSpace ws2)"

definition nonNegativeInteger :: "jsnum \<Rightarrow> bool" where
  \<comment> \<open>A finite number that is an integer and not below zero.\<close>
  "nonNegativeInteger n =
     (case n of Fin q \<Rightarrow> 0 \<le> q \<and> of_int \<lfloor>q\<rfloor> = q | _ \<Rightarrow> False)"

definition costEstimateLine :: "string \<Rightarrow> string list" where
  \<comment> \<open>The value of a line of the block whose key is \<open>cost_estimate\<close>, as \<open>Number\<close> receives it.\<close>
  "costEstimateLine line =
     (case lineRegex line of
        None \<Rightarrow> []
      | Some (key, rawValue) \<Rightarrow>
          if key = ''cost_estimate'' then [stripMarkdownLinks (trim rawValue)] else [])"

definition costEstimateValues :: "string option \<Rightarrow> string list" where
  \<comment> \<open>The values the meta block of the content gives to \<open>cost_estimate\<close>, in order; none
      when there is no content or no block.\<close>
  "costEstimateValues content =
     (case content of
        None \<Rightarrow> []
      | Some c \<Rightarrow>
          (case metaMatch c of
             None \<Rightarrow> []
           | Some (whole, metaBlock) \<Rightarrow> concat (map costEstimateLine (splitLF metaBlock))))"

section \<open>Example inputs\<close>

definition issueOf :: "string \<Rightarrow> string \<Rightarrow> Issue" where
  "issueOf title stateType =
     \<lparr>issue_id = ''issue-'' @ title, issue_title = title, issue_state_type = stateType,
      issue_state_name = stateType, issue_completedAt = None\<rparr>"

definition exampleIssues :: "Issue list" where
  "exampleIssues =
     [issueOf ''A'' ''completed'', issueOf ''B'' ''completed'', issueOf ''C'' ''started'',
      issueOf ''D'' ''unstarted'']"

definition projectOf :: "string \<Rightarrow> string option \<Rightarrow> string option \<Rightarrow> LinearProjectNode" where
  \<comment> \<open>A started project at progress 0.42 with the given name, short description and
      content, and five issues, the last one in triage.\<close>
  "projectOf projectName shortDescription content =
     \<lparr>project_id = ''id-'' @ projectName, project_name = projectName,
      project_description = shortDescription, project_content = content,
      project_state = ''started'', project_progress = 42 / 100,
      project_startDate = None, project_targetDate = Some ''2026-01-01'',
      project_url = ''https://api.example/p/1'',
      project_createdAt = ''2025-01-01T00:00:00Z'', project_updatedAt = ''2025-06-01T00:00:00Z'',
      project_issues = exampleIssues @ [issueOf ''E'' ''triage'']\<rparr>"

definition worldOf :: "LinearProjectNode list \<Rightarrow> World" where
  \<comment> \<open>A configured key and a successful response carrying the given projects.\<close>
  "worldOf projects =
     \<lparr>env_LINEAR_API_KEY = Some ''lin_api_key'', res_ok = True, res_status = 200,
      res_statusText = ''OK'', json_errors = None, json_projects = projects\<rparr>"

definition puppetProject :: LinearProjectNode where
  "puppetProject =
     projectOf ''Puppet Show'' (Some ''Puppets'')
       (Some ''<!-- meta\<newline>page_path: /puppet\<newline>cost_estimate: 1200\<newline>-->'')"

definition alphaProject :: LinearProjectNode where
  "alphaProject = projectOf ''Alpha'' None None"

definition betaProject :: LinearProjectNode where
  "betaProject = (projectOf ''beta'' None None)\<lparr>project_progress := 1 / 3\<rparr>"

definition costProject :: "string \<Rightarrow> LinearProjectNode" where
  \<comment> \<open>A project whose meta block has the one line \<open>cost_estimate: v\<close>.\<close>
  "costProject v = projectOf ''Puppet'' None (Some (''<!-- meta\<newline>cost_estimate: '' @ v @ ''\<newline>-->''))"

definition labProject :: LinearProjectNode where
  "labProject = projectOf ''Lab'' None None"

definition labBangProject :: LinearProjectNode where
  "labBangProject = projectOf ''Lab!'' None None"

definition colonProject :: LinearProjectNode where
  "colonProject = projectOf ''a:'' None None"

definition digitProject :: LinearProjectNode where
  "digitProject = projectOf ''a1'' None None"

definition collationRank :: "char \<Rightarrow> char" where
  \<comment> \<open>Digits and lowercase letters are moved above every other ASCII character.\<close>
  "collationRank c = (if isSlugChar c then char_of ((of_char c :: nat) + 128) else c)"

definition punctuationFirstCompare :: "string \<Rightarrow> string \<Rightarrow> int" where
  \<comment> \<open>An example value of the parameter \<open>localeCompare\<close>: a collation that ignores case
      and ranks ASCII punctuation before the digits and the digits before the letters,
      as the platform's default collation ranks them.\<close>
  "punctuationFirstCompare a b =
     compareCodeUnits (map collationRank (toLowerCase a)) (map collationRank (toLowerCase b))"

section \<open>Fields of the assembled initiative\<close>

text \<open>
  The definitions a concrete run unfolds, and each field of the assembled initiative on
  its own.
\<close>

lemmas char_defs = LF_def isSpace_def isLineTerminator_def isDot_def isDigit_def isLowerAZ_def
  isUpperAZ_def isWordChar_def isSlugChar_def
lemmas string_defs = trim_def startsWith_def toLowerCase_def toLowerChar_def
lemmas matcher_defs = greedyPlus_def lazyPlus_def atEnd_def linkMatch_def simpleLinkMatch_def
  stripMarkdownLinks_def metaRegex_def metaMatch_def lineRegex_def
lemmas number_defs = truthy_def negate_def radixDigit_def digits_def decimalValue_def pow10_def
  exponentPart_def unsignedDecimal_def nonDecimal_def strNumericLiteral_def Number_def
lemmas parse_defs = char_defs string_defs matcher_defs number_defs emptyMeta_def parseLine_def
  parseMeta_def

lemma name_eq: "name (projectToInitiative p) = project_name p"
  by (simp add: projectToInitiative_def Let_def split: prod.splits)

lemma page_path_eq:
  "page_path (projectToInitiative p) = orNull (meta_page_path (fst (parseMeta (project_content p))))"
  by (simp add: projectToInitiative_def Let_def split: prod.splits)

lemma completeness_eq:
  "completeness (projectToInitiative p) = mathRound (project_progress p * 100)"
  by (simp add: projectToInitiative_def Let_def split: prod.splits)

lemma cost_estimate_eq:
  "cost_estimate (projectToInitiative p) =
     (case meta_cost_estimate (fst (parseMeta (project_content p))) of
        None \<Rightarrow> Fin 0
      | Some n \<Rightarrow> if truthy n then n else Fin 0)"
  by (simp add: projectToInitiative_def Let_def split: prod.splits)

lemma getAllInitiatives_worldOf:
  "getAllInitiatives lc (worldOf ps) =
     Inr (arraySort (\<lambda>a b. lc (name a) (name b))
            (map projectToInitiative (filter (\<lambda>p. project_state p \<noteq> ''canceled'') ps)))"
  by (simp add: getAllInitiatives_def gql_def worldOf_def orNull_def)

lemma description_eq:
  "description (projectToInitiative p) =
     orElse (project_description p)
       (orElse (Some (snd (parseMeta (project_content p)))) (project_name p))"
  by (simp add: projectToInitiative_def Let_def split: prod.splits)

lemma slug_eq:
  "slug (projectToInitiative p) =
     stripEdgeHyphens (replaceNonSlugRuns (toLowerCase (project_name p)))"
  by (simp add: projectToInitiative_def Let_def split: prod.splits)

section \<open>State mapping is the fixed table\<close>

text \<open>
  C1. The state mapper is total: each of the six known states maps as the table says
  (started to active, backlog to planned, planned to planned, paused to beta, completed
  to active, canceled to planned), every other string maps to planned, and the result
  is always one of the four statuses.
\<close>

theorem mapProjectState_table:
  "mapProjectState ''started'' = Active
   \<and> mapProjectState ''backlog'' = Planned
   \<and> mapProjectState ''planned'' = Planned
   \<and> mapProjectState ''paused'' = Beta
   \<and> mapProjectState ''completed'' = Active
   \<and> mapProjectState ''canceled'' = Planned
   \<and> (state \<notin> {''started'', ''backlog'', ''planned'', ''paused'', ''completed'', ''canceled''}
        \<longrightarrow> mapProjectState state = Planned)
   \<and> mapProjectState state \<in> {Active, InDevelopment, Planned, Beta}"
  by (simp add: mapProjectState_def)

theorem mapProjectState_table_witness:
  "''archived'' \<notin> {''started'', ''backlog'', ''planned'', ''paused'', ''completed'', ''canceled''}
   \<and> mapProjectState ''archived'' = Planned
   \<and> mapProjectState ''paused'' = Beta"
  using mapProjectState_table [of "''archived''"] by simp

section \<open>Issue aggregation\<close>

lemma features_eq:
  "features (projectToInitiative p) =
     map issue_title
       (take 10 (filter (\<lambda>i. issue_state_type i = ''completed'') (project_issues p)))"
  by (simp add: projectToInitiative_def Let_def split: prod.splits)

lemma next_milestones_eq:
  "next_milestones (projectToInitiative p) =
     map issue_title
       (take 5 (filter (\<lambda>i. issue_state_type i = ''started'' \<or> issue_state_type i = ''unstarted'')
                  (project_issues p)))"
  by (simp add: projectToInitiative_def Let_def split: prod.splits)

lemma issue_count_eq: "issue_count (projectToInitiative p) = length (project_issues p)"
  by (simp add: projectToInitiative_def Let_def split: prod.splits)

lemma completed_issue_count_eq:
  "completed_issue_count (projectToInitiative p) =
     length (filter (\<lambda>i. issue_state_type i = ''completed'') (project_issues p))"
  by (simp add: projectToInitiative_def Let_def split: prod.splits)

text \<open>
  C2. For every project node, \<open>features\<close> are the titles of the first 10 at most of the
  issues whose state type is completed, in the order supplied, and \<open>next_milestones\<close>
  those of the first 5 at most of the issues whose state type is started or unstarted.
  \<open>issue_count\<close> is the number of issues supplied, \<open>completed_issue_count\<close> the number
  of completed ones, and the latter is at most the former. An issue of any other state
  type is in neither list and still counted: taking it out of the input changes neither
  list nor the completed count, and lowers \<open>issue_count\<close> by one.
\<close>

theorem issue_aggregation:
  fixes p :: LinearProjectNode
  defines "I \<equiv> projectToInitiative p"
  shows
    "features I =
       map issue_title
         (take 10 (filter (\<lambda>i. issue_state_type i = ''completed'') (project_issues p)))
     \<and> next_milestones I =
       map issue_title
         (take 5 (filter (\<lambda>i. issue_state_type i = ''started'' \<or> issue_state_type i = ''unstarted'')
                    (project_issues p)))
     \<and> length (features I) \<le> 10 \<and> length (next_milestones I) \<le> 5
     \<and> issue_count I = length (project_issues p)
     \<and> completed_issue_count I =
         length (filter (\<lambda>i. issue_state_type i = ''completed'') (project_issues p))
     \<and> completed_issue_count I \<le> issue_count I
     \<and> (project_issues p = xs @ i # ys
           \<and> issue_state_type i \<notin> {''completed'', ''started'', ''unstarted''}
           \<longrightarrow> features I = features (projectToInitiative (p\<lparr>project_issues := xs @ ys\<rparr>))
             \<and> next_milestones I
                 = next_milestones (projectToInitiative (p\<lparr>project_issues := xs @ ys\<rparr>))
             \<and> completed_issue_count I
                 = completed_issue_count (projectToInitiative (p\<lparr>project_issues := xs @ ys\<rparr>))
             \<and> issue_count I
                 = Suc (issue_count (projectToInitiative (p\<lparr>project_issues := xs @ ys\<rparr>))))"
  unfolding I_def
  by (simp add: features_eq next_milestones_eq issue_count_eq completed_issue_count_eq)

theorem issue_aggregation_witness:
  "project_issues (projectOf ''Puppet'' None None) = exampleIssues @ issueOf ''E'' ''triage'' # []
   \<and> issue_state_type (issueOf ''E'' ''triage'') \<notin> {''completed'', ''started'', ''unstarted''}
   \<and> features (projectToInitiative (projectOf ''Puppet'' None None)) = [''A'', ''B'']
   \<and> next_milestones (projectToInitiative (projectOf ''Puppet'' None None)) = [''C'', ''D'']
   \<and> completed_issue_count (projectToInitiative (projectOf ''Puppet'' None None)) = 2
   \<and> issue_count (projectToInitiative (projectOf ''Puppet'' None None)) = 5
   \<and> issue_count (projectToInitiative (projectOf ''Puppet'' None None))
       = Suc (issue_count (projectToInitiative
                ((projectOf ''Puppet'' None None)\<lparr>project_issues := exampleIssues @ []\<rparr>)))"
  using issue_aggregation
          [where p = "projectOf ''Puppet'' None None" and xs = exampleIssues
             and i = "issueOf ''E'' ''triage''" and ys = "[]"]
  by (simp add: projectOf_def exampleIssues_def issueOf_def)

section \<open>The cost estimate\<close>

lemma parseLine_cost:
  "meta_cost_estimate (parseLine m line) =
     (case costEstimateLine line of
        [] \<Rightarrow> meta_cost_estimate m
      | v # _ \<Rightarrow> Some (if truthy (Number v) then Number v else Fin 0))"
  by (simp add: parseLine_def costEstimateLine_def Let_def split: option.splits prod.splits)

lemma costEstimateLine_length: "length (costEstimateLine line) \<le> 1"
  by (simp add: costEstimateLine_def split: option.splits prod.splits)

lemma foldl_parseLine_cost:
  "meta_cost_estimate (foldl parseLine m ls) =
     (if concat (map costEstimateLine ls) = [] then meta_cost_estimate m
      else Some (if truthy (Number (last (concat (map costEstimateLine ls))))
                 then Number (last (concat (map costEstimateLine ls))) else Fin 0))"
proof (induction ls arbitrary: m)
  case Nil
  then show ?case by simp
next
  case (Cons l ls)
  show ?case
  proof (cases "costEstimateLine l")
    case Nil
    then show ?thesis using Cons.IH [of "parseLine m l"] by (simp add: parseLine_cost)
  next
    case (Cons v vs)
    with costEstimateLine_length [of l] have vs: "vs = []" by simp
    show ?thesis using Cons.IH [of "parseLine m l"] Cons vs by (simp add: parseLine_cost)
  qed
qed

lemma parseMeta_cost:
  "meta_cost_estimate (fst (parseMeta content)) =
     (if costEstimateValues content = [] then None
      else Some (if truthy (Number (last (costEstimateValues content)))
                 then Number (last (costEstimateValues content)) else Fin 0))"
proof (cases content)
  case None
  then show ?thesis by (simp add: parseMeta_def costEstimateValues_def emptyMeta_def)
next
  case (Some c)
  show ?thesis
  proof (cases "metaMatch c")
    case None
    then show ?thesis using Some by (simp add: parseMeta_def costEstimateValues_def emptyMeta_def)
  next
    case (Some wb)
    obtain whole metaBlock where wb: "wb = (whole, metaBlock)" by (cases wb)
    have "c \<noteq> []" using Some by (auto simp: metaMatch_def metaRegex_def)
    then show ?thesis
      using \<open>content = Some c\<close> Some wb
      by (simp add: parseMeta_def costEstimateValues_def foldl_parseLine_cost emptyMeta_def)
  qed
qed

text \<open>
  C3, as stated, fails: \<open>Number\<close> accepts a sign and a fraction and nothing in the
  program rejects them, so a meta block with the line \<open>cost_estimate: -5\<close> gives the
  initiative the cost estimate \<open>-5\<close>.
\<close>

theorem cost_estimate_negative_counterexample:
  "cost_estimate (projectToInitiative (costProject ''-5'')) = Fin (- 5)
   \<and> \<not> nonNegativeInteger (cost_estimate (projectToInitiative (costProject ''-5'')))"
proof -
  have "parseMeta (project_content (costProject ''-5''))
          = (emptyMeta\<lparr>meta_cost_estimate := Some (Fin (- 5))\<rparr>, [])"
    by (simp add: costProject_def projectOf_def parse_defs)
  then have "cost_estimate (projectToInitiative (costProject ''-5'')) = Fin (- 5)"
    by (simp add: cost_estimate_eq emptyMeta_def truthy_def)
  then show ?thesis by (simp add: nonNegativeInteger_def)
qed

text \<open>
  C3, amended. For every project node the cost estimate of the initiative is a number
  and never \<open>NaN\<close>. It is 0 when the meta block specifies no \<open>cost_estimate\<close> (also
  when there is no content or no block), and 0 when the value of the last
  \<open>cost_estimate\<close> line is not numeric (\<open>Number\<close> gives \<open>NaN\<close>) or is zero; parsing raises
  no error (\<open>parseMeta\<close> is total). Otherwise it is the number \<open>Number\<close> reads from
  that value, whatever its sign and whether or not it is an integer.
\<close>

theorem cost_estimate_number:
  fixes p :: LinearProjectNode
  defines "vs \<equiv> costEstimateValues (project_content p)"
  shows "cost_estimate (projectToInitiative p) \<noteq> NaN
         \<and> (vs = [] \<longrightarrow> cost_estimate (projectToInitiative p) = Fin 0)
         \<and> (vs \<noteq> [] \<and> \<not> truthy (Number (last vs))
              \<longrightarrow> cost_estimate (projectToInitiative p) = Fin 0)
         \<and> (vs \<noteq> [] \<and> truthy (Number (last vs))
              \<longrightarrow> cost_estimate (projectToInitiative p) = Number (last vs))"
  unfolding vs_def cost_estimate_eq parseMeta_cost
  by (auto simp: truthy_def)

theorem cost_estimate_number_witness:
  "costEstimateValues (project_content (projectOf ''Puppet'' None None)) = []
   \<and> cost_estimate (projectToInitiative (projectOf ''Puppet'' None None)) = Fin 0
   \<and> costEstimateValues (project_content (costProject ''notanumber'')) = [''notanumber'']
   \<and> Number ''notanumber'' = NaN
   \<and> cost_estimate (projectToInitiative (costProject ''notanumber'')) = Fin 0
   \<and> costEstimateValues (project_content (costProject ''1200'')) = [''1200'']
   \<and> cost_estimate (projectToInitiative (costProject ''1200'')) = Fin 1200"
proof -
  have v0: "costEstimateValues (project_content (projectOf ''Puppet'' None None)) = []"
    by (simp add: projectOf_def costEstimateValues_def)
  have v1: "costEstimateValues (project_content (costProject ''notanumber'')) = [''notanumber'']"
    by (simp add: costProject_def projectOf_def costEstimateValues_def costEstimateLine_def
          parse_defs)
  have v2: "costEstimateValues (project_content (costProject ''1200'')) = [''1200'']"
    by (simp add: costProject_def projectOf_def costEstimateValues_def costEstimateLine_def
          parse_defs)
  have n1: "Number ''notanumber'' = NaN" by (simp add: parse_defs)
  have n2: "Number ''1200'' = Fin 1200" by (simp add: parse_defs)
  from cost_estimate_number [of "projectOf ''Puppet'' None None"]
    cost_estimate_number [of "costProject ''notanumber''"]
    cost_estimate_number [of "costProject ''1200''"]
  show ?thesis by (simp add: v0 v1 v2 n1 n2 truthy_def)
qed

section \<open>The description fallback\<close>

text \<open>
  C4, as stated, fails: the description is the first non-empty value among the short
  description, the parsed body and the project name, but a project whose name is empty
  too gets the empty description.
\<close>

theorem description_empty_counterexample:
  "description (projectToInitiative (projectOf [] None None)) = []"
  by (simp add: description_eq orElse_def projectOf_def parseMeta_def)

text \<open>
  C4, amended. For every project node the description is the short description when
  that is neither absent nor empty, else the body parsed out of the content when that
  is not empty, else the project name. It is not empty whenever the project name is not
  empty; it is empty exactly when all three are absent or empty.
\<close>

theorem description_fallback:
  "description (projectToInitiative p) =
     (case project_description p of
        Some d \<Rightarrow>
          if d \<noteq> [] then d
          else if snd (parseMeta (project_content p)) \<noteq> []
            then snd (parseMeta (project_content p))
          else project_name p
      | None \<Rightarrow>
          if snd (parseMeta (project_content p)) \<noteq> []
            then snd (parseMeta (project_content p))
          else project_name p)
   \<and> (project_name p \<noteq> [] \<longrightarrow> description (projectToInitiative p) \<noteq> [])
   \<and> (description (projectToInitiative p) = []
        \<longleftrightarrow> project_description p \<in> {None, Some []}
            \<and> snd (parseMeta (project_content p)) = [] \<and> project_name p = [])"
  by (auto simp: description_eq orElse_def split: option.splits)

theorem description_fallback_witness:
  "project_name (projectOf ''Puppet'' (Some []) (Some ''<!-- meta\<newline>url: x\<newline>-->\<newline>A show '')) \<noteq> []
   \<and> description (projectToInitiative
        (projectOf ''Puppet'' (Some []) (Some ''<!-- meta\<newline>url: x\<newline>-->\<newline>A show ''))) = ''A show''"
proof -
  have b: "snd (parseMeta (Some ''<!-- meta\<newline>url: x\<newline>-->\<newline>A show '')) = ''A show''"
    by (simp add: parse_defs)
  show ?thesis
    using description_fallback
            [of "projectOf ''Puppet'' (Some []) (Some ''<!-- meta\<newline>url: x\<newline>-->\<newline>A show '')"]
    by (simp add: projectOf_def b)
qed

section \<open>The list is sorted by name\<close>

lemma compareCodeUnits_Nil_le: "compareCodeUnits [] b \<le> 0"
  by (cases b) simp_all

lemma compareCodeUnits_Cons_le:
  "compareCodeUnits (x # xs) (y # ys) \<le> 0
   \<longleftrightarrow> (of_char x :: nat) < of_char y \<or> (x = y \<and> compareCodeUnits xs ys \<le> 0)"
proof -
  consider "(of_char x :: nat) < of_char y" | "(of_char y :: nat) < of_char x" | "x = y"
    by (metis linorder_neqE_nat of_char_eq_iff)
  then show ?thesis
  proof cases
    case 1
    then show ?thesis by simp
  next
    case 2
    then have "x \<noteq> y" by auto
    with 2 show ?thesis by simp
  next
    case 3
    then show ?thesis by simp
  qed
qed

lemma compareCodeUnits_trans:
  "compareCodeUnits a b \<le> 0 \<Longrightarrow> compareCodeUnits b c \<le> 0 \<Longrightarrow> compareCodeUnits a c \<le> 0"
proof (induction a arbitrary: b c)
  case Nil
  show ?case by (rule compareCodeUnits_Nil_le)
next
  case (Cons x xs)
  from Cons.prems(1) obtain y ys where b: "b = y # ys"
    by (cases b) simp_all
  from Cons.prems(2) b obtain z zs where c: "c = z # zs"
    by (cases c) simp_all
  from Cons.prems b c have
    xy: "(of_char x :: nat) < of_char y \<or> (x = y \<and> compareCodeUnits xs ys \<le> 0)"
    and yz: "(of_char y :: nat) < of_char z \<or> (y = z \<and> compareCodeUnits ys zs \<le> 0)"
    by (simp_all only: compareCodeUnits_Cons_le)
  have "(of_char x :: nat) < of_char z \<or> (x = z \<and> compareCodeUnits xs zs \<le> 0)"
    using xy yz Cons.IH [of ys zs] by (metis less_trans)
  then show ?case unfolding c by (simp only: compareCodeUnits_Cons_le)
qed

lemma compareCodeUnits_total: "compareCodeUnits a b \<le> 0 \<or> compareCodeUnits b a \<le> 0"
proof (induction a arbitrary: b)
  case Nil
  then show ?case by (simp add: compareCodeUnits_Nil_le)
next
  case (Cons x xs)
  show ?case
  proof (cases b)
    case Nil
    then show ?thesis by (simp add: compareCodeUnits_Nil_le)
  next
    case (Cons y ys)
    show ?thesis
      unfolding Cons compareCodeUnits_Cons_le
      using Cons.IH [of ys] by (metis linorder_neqE_nat of_char_eq_iff)
  qed
qed

lemma set_insertBy: "set (insertBy cmp x ys) = insert x (set ys)"
  by (induction ys) auto

lemma sorted_insertBy:
  assumes total: "\<And>a b. cmp a b \<le> 0 \<or> cmp b a \<le> 0"
    and refines: "\<And>a b. cmp a b \<le> 0 \<Longrightarrow> le a b"
    and trans: "\<And>a b c. le a b \<Longrightarrow> le b c \<Longrightarrow> le a c"
    and sorted: "sorted_wrt le ys"
  shows "sorted_wrt le (insertBy cmp x ys)"
  using sorted
proof (induction ys)
  case Nil
  then show ?case by simp
next
  case (Cons y ys)
  show ?case
  proof (cases "cmp x y \<le> 0")
    case True
    then have "le x y" by (rule refines)
    moreover have "le x z" if "z \<in> set ys" for z
      using \<open>le x y\<close> Cons.prems that trans by auto
    ultimately show ?thesis using True Cons.prems by simp
  next
    case False
    with total [of x y] have "le y x" using refines by blast
    then show ?thesis using False Cons by (auto simp: set_insertBy)
  qed
qed

lemma sorted_arraySort:
  assumes total: "\<And>a b. cmp a b \<le> 0 \<or> cmp b a \<le> 0"
    and refines: "\<And>a b. cmp a b \<le> 0 \<Longrightarrow> le a b"
    and trans: "\<And>a b c. le a b \<Longrightarrow> le b c \<Longrightarrow> le a c"
  shows "sorted_wrt le (arraySort cmp xs)"
  unfolding arraySort_def
  by (induction xs) (auto intro: sorted_insertBy [OF total refines trans])

lemma punctuationFirstCompare_total:
  "punctuationFirstCompare a b \<le> 0 \<or> punctuationFirstCompare b a \<le> 0"
  unfolding punctuationFirstCompare_def by (rule compareCodeUnits_total)

lemma punctuationFirstCompare_trans:
  "punctuationFirstCompare a b \<le> 0 \<Longrightarrow> punctuationFirstCompare b c \<le> 0
   \<Longrightarrow> punctuationFirstCompare a c \<le> 0"
  unfolding punctuationFirstCompare_def by (rule compareCodeUnits_trans)

lemma punctuationFirstCompare_examples:
  "punctuationFirstCompare ''a1'' ''a:'' = 1"
  "punctuationFirstCompare ''Alpha'' ''a:'' = 1"
  "punctuationFirstCompare ''Alpha'' ''a1'' = 1"
  by (code_simp, code_simp, code_simp)

lemma sorted_punctuation_first:
  "getAllInitiatives punctuationFirstCompare (worldOf [alphaProject, digitProject, colonProject])
     = Inr [projectToInitiative colonProject, projectToInitiative digitProject,
            projectToInitiative alphaProject]"
  by (simp add: getAllInitiatives_worldOf arraySort_def name_eq punctuationFirstCompare_examples
        alphaProject_def digitProject_def colonProject_def projectOf_def)

text \<open>
  C5, as stated, fails: the list is in the order of the platform's collation, which is
  not the case-insensitive lexicographic order. A collation that ranks punctuation
  before digits puts the name \<open>a:\<close> before the name \<open>a1\<close>, and compared code unit by
  code unit, case ignored, \<open>a:\<close> is the greater of the two.
\<close>

theorem sorted_case_insensitive_counterexample:
  "getAllInitiatives punctuationFirstCompare (worldOf [digitProject, colonProject])
     = Inr [projectToInitiative colonProject, projectToInitiative digitProject]
   \<and> name (projectToInitiative colonProject) = ''a:''
   \<and> name (projectToInitiative digitProject) = ''a1''
   \<and> caseInsensitiveCompare ''a:'' ''a1'' = 1
   \<and> \<not> caseInsensitiveCompare (name (projectToInitiative colonProject))
                               (name (projectToInitiative digitProject)) \<le> 0"
proof -
  have c: "caseInsensitiveCompare ''a:'' ''a1'' = 1" by code_simp
  have n: "name (projectToInitiative colonProject) = ''a:''"
    "name (projectToInitiative digitProject) = ''a1''"
    by (simp_all add: name_eq colonProject_def digitProject_def projectOf_def)
  have g: "getAllInitiatives punctuationFirstCompare (worldOf [digitProject, colonProject])
     = Inr [projectToInitiative colonProject, projectToInitiative digitProject]"
    by (simp add: getAllInitiatives_worldOf arraySort_def name_eq punctuationFirstCompare_examples
          digitProject_def colonProject_def projectOf_def)
  show ?thesis by (simp add: g n c)
qed

text \<open>
  C5, amended. The list \<open>getAllInitiatives\<close> returns is sorted ascending by name under
  the platform's \<open>localeCompare\<close>: each element's name compares less than or equal to
  the name of every later element, the next one in particular, in that collation. This
  holds for every collation that is a consistent comparator: one that decides each pair
  one way or the other and is transitive.
\<close>

theorem sorted_by_localeCompare:
  assumes total: "\<And>a b. localeCompare a b \<le> 0 \<or> localeCompare b a \<le> 0"
    and trans: "\<And>a b c. localeCompare a b \<le> 0 \<Longrightarrow> localeCompare b c \<le> 0
                  \<Longrightarrow> localeCompare a c \<le> 0"
    and fetched: "getAllInitiatives localeCompare w = Inr xs"
  shows "sorted_wrt (\<lambda>a b. localeCompare (name a) (name b) \<le> 0) xs
         \<and> (\<forall>i. Suc i < length xs
               \<longrightarrow> localeCompare (name (xs ! i)) (name (xs ! Suc i)) \<le> 0)"
proof -
  let ?le = "\<lambda>a b. localeCompare (name a) (name b) \<le> 0"
  from fetched obtain ys where
    xs: "xs = arraySort (\<lambda>a b. localeCompare (name a) (name b)) ys"
    by (auto simp: getAllInitiatives_def split: sum.splits)
  have s: "sorted_wrt ?le xs"
    unfolding xs
  proof (rule sorted_arraySort)
    show "localeCompare (name a) (name b) \<le> 0 \<or> localeCompare (name b) (name a) \<le> 0"
      for a b :: Initiative
      by (rule total)
    show "localeCompare (name a) (name b) \<le> 0 \<Longrightarrow> ?le a b" for a b :: Initiative
      by simp
    show "?le a b \<Longrightarrow> ?le b c \<Longrightarrow> ?le a c" for a b c :: Initiative
      by (rule trans)
  qed
  moreover have "localeCompare (name (xs ! i)) (name (xs ! Suc i)) \<le> 0"
    if "Suc i < length xs" for i
    using s that by (simp add: sorted_wrt_iff_nth_less)
  ultimately show ?thesis by blast
qed

theorem sorted_by_localeCompare_witness:
  "getAllInitiatives punctuationFirstCompare (worldOf [alphaProject, digitProject, colonProject])
     = Inr [projectToInitiative colonProject, projectToInitiative digitProject,
            projectToInitiative alphaProject]
   \<and> sorted_wrt (\<lambda>a b. punctuationFirstCompare (name a) (name b) \<le> 0)
       [projectToInitiative colonProject, projectToInitiative digitProject,
        projectToInitiative alphaProject]"
  using sorted_by_localeCompare
          [of punctuationFirstCompare, OF punctuationFirstCompare_total
             punctuationFirstCompare_trans sorted_punctuation_first]
        sorted_punctuation_first
  by simp

section \<open>The matchers try every split\<close>

text \<open>
  A matcher fails exactly when no way of cutting the input makes its continuation
  succeed: the order of the attempts decides which success is returned, not whether
  there is one.
\<close>

lemma lit_None: "lit p k s = None \<longleftrightarrow> (\<forall>t. s = p @ t \<longrightarrow> k t = None)"
  by (induction p k s rule: lit.induct) auto

lemma list_all_True: "list_all (\<lambda>_. True) xs"
  by (simp add: list_all_iff)

lemma all_split_Cons:
  "(\<forall>ws t. c # cs = ws @ t \<and> list_all P ws \<longrightarrow> Q ws t)
   \<longleftrightarrow> Q [] (c # cs) \<and> (P c \<longrightarrow> (\<forall>ws t. cs = ws @ t \<and> list_all P ws \<longrightarrow> Q (c # ws) t))"
proof
  assume L: "\<forall>ws t. c # cs = ws @ t \<and> list_all P ws \<longrightarrow> Q ws t"
  have "Q [] (c # cs)" using L by simp
  moreover have "Q (c # ws) t" if "P c" "cs = ws @ t" "list_all P ws" for ws t
    using L that by simp
  ultimately show "Q [] (c # cs) \<and> (P c \<longrightarrow> (\<forall>ws t. cs = ws @ t \<and> list_all P ws \<longrightarrow> Q (c # ws) t))"
    by blast
next
  assume R: "Q [] (c # cs) \<and> (P c \<longrightarrow> (\<forall>ws t. cs = ws @ t \<and> list_all P ws \<longrightarrow> Q (c # ws) t))"
  show "\<forall>ws t. c # cs = ws @ t \<and> list_all P ws \<longrightarrow> Q ws t"
  proof (intro allI impI)
    fix ws t
    assume a: "c # cs = ws @ t \<and> list_all P ws"
    show "Q ws t"
    proof (cases ws)
      case Nil
      then show ?thesis using a R by simp
    next
      case (Cons w ws')
      then show ?thesis using a R by simp
    qed
  qed
qed

lemma greedyStar_None:
  "greedyStar P k acc s = None
   \<longleftrightarrow> (\<forall>ws t. s = ws @ t \<and> list_all P ws \<longrightarrow> k (acc @ ws) t = None)"
proof (induction s arbitrary: acc)
  case Nil
  then show ?case by simp
next
  case (Cons c cs)
  have IH: "greedyStar P k (acc @ [c]) cs = None
            \<longleftrightarrow> (\<forall>ws t. cs = ws @ t \<and> list_all P ws \<longrightarrow> k (acc @ c # ws) t = None)"
    using Cons.IH [of "acc @ [c]"] by simp
  have "greedyStar P k acc (c # cs) = None
        \<longleftrightarrow> k acc (c # cs) = None \<and> (P c \<longrightarrow> greedyStar P k (acc @ [c]) cs = None)"
    by (simp split: option.splits)
  then show ?case
    unfolding all_split_Cons [where Q = "\<lambda>ws t. k (acc @ ws) t = None"] IH by simp
qed

lemma lazyStar_None:
  "lazyStar P k acc s = None
   \<longleftrightarrow> (\<forall>ws t. s = ws @ t \<and> list_all P ws \<longrightarrow> k (acc @ ws) t = None)"
proof (induction s arbitrary: acc)
  case Nil
  then show ?case by simp
next
  case (Cons c cs)
  have IH: "lazyStar P k (acc @ [c]) cs = None
            \<longleftrightarrow> (\<forall>ws t. cs = ws @ t \<and> list_all P ws \<longrightarrow> k (acc @ c # ws) t = None)"
    using Cons.IH [of "acc @ [c]"] by simp
  have "lazyStar P k acc (c # cs) = None
        \<longleftrightarrow> k acc (c # cs) = None \<and> (P c \<longrightarrow> lazyStar P k (acc @ [c]) cs = None)"
    by (simp split: option.splits)
  then show ?case
    unfolding all_split_Cons [where Q = "\<lambda>ws t. k (acc @ ws) t = None"] IH by simp
qed

lemma search_None: "search m pre s = None \<longleftrightarrow> (\<forall>a t. s = a @ t \<longrightarrow> m t = None)"
proof (induction s arbitrary: pre)
  case Nil
  then show ?case by simp
next
  case (Cons c cs)
  have "(\<forall>a t. c # cs = a @ t \<longrightarrow> m t = None)
        \<longleftrightarrow> m (c # cs) = None \<and> (\<forall>a t. cs = a @ t \<longrightarrow> m t = None)"
    by (auto simp: Cons_eq_append_conv)
  then show ?case using Cons.IH [of "pre @ [c]"] by (auto split: option.splits)
qed

lemma metaRegex_None:
  "metaRegex s = None
   \<longleftrightarrow> \<not> (\<exists>ws1 ws2 blk post.
            s = ''<!--'' @ ws1 @ ''meta'' @ ws2 @ [LF] @ blk @ ''-->'' @ post
            \<and> list_all isSpace ws1 \<and> list_all isSpace ws2)"
proof -
  have "metaRegex s = None \<longleftrightarrow>
        (\<forall>t1. s = ''<!--'' @ t1 \<longrightarrow>
          (\<forall>ws1 t2. t1 = ws1 @ t2 \<and> list_all isSpace ws1 \<longrightarrow>
            (\<forall>t3. t2 = ''meta'' @ t3 \<longrightarrow>
              (\<forall>ws2 t4. t3 = ws2 @ t4 \<and> list_all isSpace ws2 \<longrightarrow>
                (\<forall>t5. t4 = [LF] @ t5 \<longrightarrow>
                  (\<forall>blk t6. t5 = blk @ t6 \<and> list_all (\<lambda>_. True) blk \<longrightarrow>
                    (\<forall>post. t6 \<noteq> ''-->'' @ post)))))))"
    unfolding metaRegex_def
    by (simp only: lit_None greedyStar_None lazyStar_None append_Nil) simp
  also have "\<dots> \<longleftrightarrow> \<not> (\<exists>ws1 ws2 blk post.
            s = ''<!--'' @ ws1 @ ''meta'' @ ws2 @ [LF] @ blk @ ''-->'' @ post
            \<and> list_all isSpace ws1 \<and> list_all isSpace ws2)"
    (is "?A \<longleftrightarrow> \<not> ?B")
  proof
    assume A: ?A
    show "\<not> ?B"
    proof
      assume ?B
      then obtain ws1 ws2 blk post where
        d: "s = ''<!--'' @ ws1 @ ''meta'' @ ws2 @ [LF] @ blk @ ''-->'' @ post"
        and w: "list_all isSpace ws1" "list_all isSpace ws2"
        by blast
      have "''-->'' @ post \<noteq> ''-->'' @ post"
        using A [rule_format,
            of "ws1 @ ''meta'' @ ws2 @ [LF] @ blk @ ''-->'' @ post" ws1
               "''meta'' @ ws2 @ [LF] @ blk @ ''-->'' @ post"
               "ws2 @ [LF] @ blk @ ''-->'' @ post" ws2
               "[LF] @ blk @ ''-->'' @ post" "blk @ ''-->'' @ post" blk
               "''-->'' @ post" post]
          d w list_all_True [of blk]
        by simp
      then show False by simp
    qed
  next
    assume nB: "\<not> ?B"
    show ?A
    proof (intro allI impI)
      fix t1 ws1 t2 t3 ws2 t4 t5 blk t6 post
      assume a: "s = ''<!--'' @ t1" "t1 = ws1 @ t2 \<and> list_all isSpace ws1"
        "t2 = ''meta'' @ t3" "t3 = ws2 @ t4 \<and> list_all isSpace ws2"
        "t4 = [LF] @ t5" "t5 = blk @ t6 \<and> list_all (\<lambda>_. True) blk"
      show "t6 \<noteq> ''-->'' @ post"
      proof
        assume "t6 = ''-->'' @ post"
        with a have
          "s = ''<!--'' @ ws1 @ ''meta'' @ ws2 @ [LF] @ blk @ ''-->'' @ post
           \<and> list_all isSpace ws1 \<and> list_all isSpace ws2"
          by simp
        then have ?B by blast
        with nB show False ..
      qed
    qed
  qed
  finally show ?thesis .
qed

lemma metaMatch_None: "metaMatch c = None \<longleftrightarrow> \<not> containsMetaBlock c"
proof -
  have "metaMatch c = None \<longleftrightarrow> search metaRegex [] c = None"
    by (simp add: metaMatch_def split: option.splits)
  also have "\<dots> \<longleftrightarrow> (\<forall>a t. c = a @ t \<longrightarrow> metaRegex t = None)"
    by (rule search_None)
  also have "\<dots> \<longleftrightarrow> \<not> containsMetaBlock c"
    unfolding metaRegex_None containsMetaBlock_def by blast
  finally show ?thesis .
qed

section \<open>Content without a meta block\<close>

text \<open>
  C6. \<open>parseMeta\<close> returns the empty meta and the empty body when the content is absent
  (\<open>null\<close>). When the content is there and contains no delimited meta block, it returns
  the empty meta and, as body, the content trimmed and otherwise unchanged.
\<close>

theorem parseMeta_absent:
  "parseMeta None = (emptyMeta, [])
   \<and> (\<not> containsMetaBlock c \<longrightarrow> parseMeta (Some c) = (emptyMeta, trim c))"
  using metaMatch_None [of c]
  by (auto simp: parseMeta_def trim_def)

theorem parseMeta_absent_witness:
  "\<not> containsMetaBlock ''  A puppet <!-- show -->  ''
   \<and> parseMeta (Some ''  A puppet <!-- show -->  '') = (emptyMeta, ''A puppet <!-- show -->'')"
proof -
  have m: "metaMatch ''  A puppet <!-- show -->  '' = None"
    by (simp add: metaMatch_def metaRegex_def isSpace_def)
  then have n: "\<not> containsMetaBlock ''  A puppet <!-- show -->  ''"
    by (simp add: metaMatch_None)
  have t: "trim ''  A puppet <!-- show -->  '' = ''A puppet <!-- show -->''"
    by (simp add: trim_def isSpace_def)
  from n t parseMeta_absent [of "''  A puppet <!-- show -->  ''"] show ?thesis by simp
qed

section \<open>Average completeness\<close>

lemma foldl_completeness:
  "foldl (\<lambda>sum i. sum + completeness i) a xs = a + sum_list (map completeness xs)"
  by (induction xs arbitrary: a) auto

lemma mathRound_quotient:
  assumes "0 < n"
  shows "mathRound (of_int t / of_nat n) = r
         \<longleftrightarrow> 2 * int n * r \<le> 2 * t + int n \<and> 2 * t + int n < 2 * int n * (r + 1)"
proof -
  have n: "(0::rat) < of_nat n" using assms by simp
  have "mathRound (of_int t / of_nat n) = r
        \<longleftrightarrow> of_int r \<le> (of_int t / of_nat n + 1 / 2 :: rat)
            \<and> (of_int t / of_nat n + 1 / 2 :: rat) < of_int r + 1"
    unfolding mathRound_def by (rule floor_eq_iff)
  also have "of_int r \<le> (of_int t / of_nat n + 1 / 2 :: rat)
             \<longleftrightarrow> (of_int (2 * int n * r) :: rat) \<le> of_int (2 * t + int n)"
    using n by (simp add: field_simps)
  also have "(of_int t / of_nat n + 1 / 2 :: rat) < of_int r + 1
             \<longleftrightarrow> (of_int (2 * t + int n) :: rat) < of_int (2 * int n * (r + 1))"
    using n by (simp add: field_simps)
  finally show ?thesis by (simp only: of_int_le_iff of_int_less_iff)
qed

lemma average_of_nonempty:
  assumes "xs \<noteq> []"
  shows "mathRoundNumber (divide (of_int (foldl (\<lambda>sum i. sum + completeness i) 0 xs))
                                 (of_nat (length xs)))
         = Fin (of_int (mathRound (of_int (sum_list (map completeness xs)) / of_nat (length xs))))"
  using assms by (simp add: mathRoundNumber_def divide_def foldl_completeness)

lemma average_of_empty_unguarded:
  "mathRoundNumber (divide (of_int (foldl (\<lambda>sum i. sum + completeness i) 0 []))
                           (of_nat (length ([] :: Initiative list)))) = NaN"
  by (simp add: mathRoundNumber_def divide_def)

text \<open>
  C7. When the fetched list of initiatives is empty, \<open>getAverageCompleteness\<close> returns
  0: no error is raised and nothing is divided (the quotient of the empty list would be
  \<open>0 / 0\<close>, which is \<open>NaN\<close>, and the result is never \<open>NaN\<close>). On a list that is not
  empty it returns the average of the completeness values rounded to the nearest
  integer, a half upwards: the integer \<open>r\<close> with \<open>r \<le> total / n + 1/2 < r + 1\<close>.
\<close>

theorem average_completeness:
  "(getAllInitiatives lc w = Inr [] \<longrightarrow> getAverageCompleteness lc w = Inr (Fin 0))
   \<and> (getAllInitiatives lc w = Inr xs \<longrightarrow> getAverageCompleteness lc w \<noteq> Inr NaN)
   \<and> (getAllInitiatives lc w = Inr xs \<and> xs \<noteq> [] \<longrightarrow>
        (\<exists>r. getAverageCompleteness lc w = Inr (Fin (of_int r))
           \<and> 2 * int (length xs) * r \<le> 2 * sum_list (map completeness xs) + int (length xs)
           \<and> 2 * sum_list (map completeness xs) + int (length xs) < 2 * int (length xs) * (r + 1)))"
proof -
  have empty: "getAverageCompleteness lc w = Inr (Fin 0)" if "getAllInitiatives lc w = Inr []"
    using that by (simp add: getAverageCompleteness_def)
  have nonempty:
    "\<exists>r. getAverageCompleteness lc w = Inr (Fin (of_int r))
         \<and> 2 * int (length xs) * r \<le> 2 * sum_list (map completeness xs) + int (length xs)
         \<and> 2 * sum_list (map completeness xs) + int (length xs) < 2 * int (length xs) * (r + 1)"
    if a: "getAllInitiatives lc w = Inr xs" "xs \<noteq> []"
  proof -
    define r where "r = mathRound (of_int (sum_list (map completeness xs)) / of_nat (length xs))"
    have "getAverageCompleteness lc w = Inr (Fin (of_int r))"
      using a average_of_nonempty [OF a(2)] by (simp add: getAverageCompleteness_def r_def)
    moreover have "0 < length xs" using a by simp
    from mathRound_quotient [OF this, of "sum_list (map completeness xs)" r] r_def
    have "2 * int (length xs) * r \<le> 2 * sum_list (map completeness xs) + int (length xs)
          \<and> 2 * sum_list (map completeness xs) + int (length xs) < 2 * int (length xs) * (r + 1)"
      by simp
    ultimately show ?thesis by blast
  qed
  have "getAverageCompleteness lc w \<noteq> Inr NaN" if a: "getAllInitiatives lc w = Inr xs"
  proof (cases "xs = []")
    case True
    with a empty show ?thesis by simp
  next
    case False
    with a nonempty obtain r where "getAverageCompleteness lc w = Inr (Fin (of_int r))" by blast
    then show ?thesis by simp
  qed
  with empty nonempty show ?thesis by blast
qed

theorem average_completeness_witness:
  "getAllInitiatives caseInsensitiveCompare (worldOf []) = Inr []
   \<and> getAverageCompleteness caseInsensitiveCompare (worldOf []) = Inr (Fin 0)
   \<and> getAllInitiatives caseInsensitiveCompare (worldOf [betaProject, alphaProject])
       = Inr [projectToInitiative alphaProject, projectToInitiative betaProject]
   \<and> map completeness [projectToInitiative alphaProject, projectToInitiative betaProject] = [42, 33]
   \<and> getAverageCompleteness caseInsensitiveCompare (worldOf [betaProject, alphaProject])
       = Inr (Fin 38)"
proof -
  have e: "getAllInitiatives caseInsensitiveCompare (worldOf []) = Inr []"
    by (simp add: getAllInitiatives_worldOf arraySort_def)
  have c: "caseInsensitiveCompare ''beta'' ''Alpha'' = 1"
    by code_simp
  have g: "getAllInitiatives caseInsensitiveCompare (worldOf [betaProject, alphaProject])
       = Inr [projectToInitiative alphaProject, projectToInitiative betaProject]"
    by (simp add: getAllInitiatives_worldOf arraySort_def name_eq c alphaProject_def
          betaProject_def projectOf_def)
  have m: "map completeness [projectToInitiative alphaProject, projectToInitiative betaProject]
             = [42, 33]"
    by (simp add: completeness_eq alphaProject_def betaProject_def projectOf_def
          mathRound_def floor_eq_iff)
  from average_completeness
         [of caseInsensitiveCompare "worldOf [betaProject, alphaProject]"
             "[projectToInitiative alphaProject, projectToInitiative betaProject]"] g m
  obtain r where r: "getAverageCompleteness caseInsensitiveCompare
                       (worldOf [betaProject, alphaProject]) = Inr (Fin (of_int r))"
    and b: "4 * r \<le> 152" "152 < 4 * (r + 1)"
    by auto
  from b have "r = 38" by arith
  with r e g m average_completeness [of caseInsensitiveCompare "worldOf []" "[]"]
  show ?thesis by simp
qed

section \<open>Page paths are normalized\<close>

text \<open>
  C8. For every path that does not start with a slash, \<open>getInitiativeByPagePath\<close>
  returns on it what it returns on the path with a slash put in front, over the same
  fetch.
\<close>

theorem pagePath_normalized:
  "\<not> startsWith p ''/''
   \<Longrightarrow> getInitiativeByPagePath lc w p = getInitiativeByPagePath lc w (''/'' @ p)"
  by (simp add: getInitiativeByPagePath_def startsWith_def)

theorem pagePath_normalized_witness:
  "\<not> startsWith ''puppet'' ''/''
   \<and> getInitiativeByPagePath caseInsensitiveCompare (worldOf [puppetProject]) ''puppet''
       = Inr (Some (projectToInitiative puppetProject))
   \<and> getInitiativeByPagePath caseInsensitiveCompare (worldOf [puppetProject]) ''/puppet''
       = Inr (Some (projectToInitiative puppetProject))"
proof -
  have h: "\<not> startsWith ''puppet'' ''/''" by (simp add: startsWith_def)
  have "parseMeta (project_content puppetProject)
          = (emptyMeta\<lparr>meta_cost_estimate := Some (Fin 1200),
                          meta_page_path := Some ''/puppet''\<rparr>, [])"
    by (simp add: puppetProject_def projectOf_def parse_defs)
  then have pp: "page_path (projectToInitiative puppetProject) = Some ''/puppet''"
    by (simp add: page_path_eq orNull_def emptyMeta_def)
  have st: "project_state puppetProject = ''started''"
    by (simp add: puppetProject_def projectOf_def)
  have e: "getInitiativeByPagePath caseInsensitiveCompare (worldOf [puppetProject]) ''puppet''
             = Inr (Some (projectToInitiative puppetProject))"
    by (simp add: getInitiativeByPagePath_def getAllInitiatives_worldOf arraySort_def st pp
          startsWith_def)
  from pagePath_normalized [OF h, of caseInsensitiveCompare "worldOf [puppetProject]"] h e
  show ?thesis by simp
qed

section \<open>Lookup by slug under a collision\<close>

lemma slugs: "toLowerCase ''Lab'' = ''lab''" "toLowerCase ''Lab!'' = ''lab!''"
  by code_simp+

lemma slug_lab: "slug (projectToInitiative labProject) = ''lab''"
  by (simp add: slug_eq labProject_def projectOf_def slugs isSlugChar_def isLowerAZ_def
        isDigit_def stripEdgeHyphens_def)

lemma slug_labBang: "slug (projectToInitiative labBangProject) = ''lab''"
  by (simp add: slug_eq labBangProject_def projectOf_def slugs isSlugChar_def isLowerAZ_def
        isDigit_def stripEdgeHyphens_def)

lemma sorted_labs:
  "getAllInitiatives caseInsensitiveCompare (worldOf [labProject, labBangProject])
     = Inr [projectToInitiative labProject, projectToInitiative labBangProject]"
proof -
  have c: "caseInsensitiveCompare ''Lab'' ''Lab!'' = - 1" by code_simp
  show ?thesis
    by (simp add: getAllInitiatives_worldOf arraySort_def name_eq c labProject_def
          labBangProject_def projectOf_def)
qed

text \<open>
  C9, as stated, fails: \<open>find\<close> returns the first element that matches. The projects
  named \<open>Lab\<close> and \<open>Lab!\<close> both get the slug \<open>lab\<close>; in the list sorted by name \<open>Lab\<close>
  comes first, and the lookup of \<open>lab\<close> returns it, not the last one.
\<close>

theorem slug_lookup_last_counterexample:
  "getAllInitiatives caseInsensitiveCompare (worldOf [labProject, labBangProject])
     = Inr [projectToInitiative labProject, projectToInitiative labBangProject]
   \<and> name (projectToInitiative labProject) = ''Lab''
   \<and> name (projectToInitiative labBangProject) = ''Lab!''
   \<and> slug (projectToInitiative labProject) = ''lab''
   \<and> slug (projectToInitiative labBangProject) = ''lab''
   \<and> getInitiativeBySlug caseInsensitiveCompare (worldOf [labProject, labBangProject]) ''lab''
       = Inr (Some (projectToInitiative labProject))
   \<and> getInitiativeBySlug caseInsensitiveCompare (worldOf [labProject, labBangProject]) ''lab''
       \<noteq> Inr (Some (last [projectToInitiative labProject, projectToInitiative labBangProject]))"
proof -
  have n: "name (projectToInitiative labProject) = ''Lab''"
    "name (projectToInitiative labBangProject) = ''Lab!''"
    by (simp_all add: name_eq labProject_def labBangProject_def projectOf_def)
  then have d: "projectToInitiative labProject \<noteq> projectToInitiative labBangProject"
    by auto
  show ?thesis
    using d by (simp add: sorted_labs n slug_lab slug_labBang getInitiativeBySlug_def)
qed

text \<open>
  C9, amended. When initiatives of the fetched, name-sorted list share a slug,
  \<open>getInitiativeBySlug\<close> of that slug returns the one that occurs first in the list:
  whenever the initiative at position \<open>j\<close> has the slug, the result is the initiative
  at a position \<open>i \<le> j\<close> that has the slug and has none with the slug before it. The
  first in sorted order shadows the later ones. This holds for every collation.
\<close>

theorem slug_lookup_first:
  "getAllInitiatives lc w = Inr xs \<Longrightarrow> j < length xs \<Longrightarrow> slug (xs ! j) = s
   \<Longrightarrow> \<exists>i\<le>j. getInitiativeBySlug lc w s = Inr (Some (xs ! i))
             \<and> slug (xs ! i) = s \<and> (\<forall>m<i. slug (xs ! m) \<noteq> s)"
proof -
  assume a: "getAllInitiatives lc w = Inr xs" "j < length xs" "slug (xs ! j) = s"
  then have "xs ! j \<in> set xs" by simp
  with a obtain x where x: "find (\<lambda>i. slug i = s) xs = Some x"
    by (cases "find (\<lambda>i. slug i = s) xs") (auto simp: find_None_iff)
  then obtain i where i: "i < length xs" "slug (xs ! i) = s" "x = xs ! i"
    "\<forall>m<i. slug (xs ! m) \<noteq> s"
    by (auto simp: find_Some_iff)
  have "i \<le> j"
  proof (rule ccontr)
    assume "\<not> i \<le> j"
    then have "j < i" by simp
    with i(4) a(3) show False by blast
  qed
  moreover have "getInitiativeBySlug lc w s = Inr (Some (xs ! i))"
    using a(1) x i(3) by (simp add: getInitiativeBySlug_def)
  ultimately show ?thesis using i by blast
qed

theorem slug_lookup_first_witness:
  "getAllInitiatives caseInsensitiveCompare (worldOf [labProject, labBangProject])
     = Inr [projectToInitiative labProject, projectToInitiative labBangProject]
   \<and> (1::nat) < length [projectToInitiative labProject, projectToInitiative labBangProject]
   \<and> slug ([projectToInitiative labProject, projectToInitiative labBangProject] ! 1) = ''lab''
   \<and> (\<exists>i\<le>1. getInitiativeBySlug caseInsensitiveCompare (worldOf [labProject, labBangProject]) ''lab''
              = Inr (Some ([projectToInitiative labProject, projectToInitiative labBangProject] ! i))
            \<and> i = 0)"
proof -
  have j: "(1::nat) < length [projectToInitiative labProject, projectToInitiative labBangProject]"
    by simp
  have s: "slug ([projectToInitiative labProject, projectToInitiative labBangProject] ! 1) = ''lab''"
    by (simp add: slug_labBang)
  from slug_lookup_first [OF sorted_labs j s]
  obtain i where i: "i \<le> 1"
    "getInitiativeBySlug caseInsensitiveCompare (worldOf [labProject, labBangProject]) ''lab''
       = Inr (Some ([projectToInitiative labProject, projectToInitiative labBangProject] ! i))"
    "\<forall>m<i. slug ([projectToInitiative labProject, projectToInitiative labBangProject] ! m) \<noteq> ''lab''"
    by blast
  have "i = 0"
  proof (rule ccontr)
    assume "i \<noteq> 0"
    then have "0 < i" by simp
    with i(3) have "slug ([projectToInitiative labProject, projectToInitiative labBangProject] ! 0) \<noteq> ''lab''"
      by blast
    then show False by (simp add: slug_lab)
  qed
  with i sorted_labs j s show ?thesis by blast
qed

section \<open>Names without a letter or digit\<close>





end
